theory Spec2Isabelle
  imports Complex_Main "HOL-Library.AList" "HOL-Library.Sublist"
begin

section \<open>Python values, exceptions and effects\<close>

text \<open>
  The values that \<^verbatim>\<open>json.load\<close> produces and that the mapping tables hold. \<open>PNone\<close>
  is Python's \<^verbatim>\<open>None\<close>, which is also what \<^verbatim>\<open>dict.get\<close> returns for an absent key.
  A \<^verbatim>\<open>dict\<close> is an association list in insertion order; \<^verbatim>\<open>d[k] = v\<close> is
  \<open>AList.update\<close> (replace in place, or append). Python floats are modelled as reals.
  Strings are lists of 8-bit characters; \<^verbatim>\<open>str.lower\<close> is modelled on ASCII letters.
\<close>

datatype pyval =
    PNone
  | PBool bool
  | PInt int
  | PFloat real
  | PStr string
  | PList "pyval list"
  | PDict "(string \<times> pyval) list"

fun truthy :: "pyval \<Rightarrow> bool" where
  "truthy PNone = False"
| "truthy (PBool b) = b"
| "truthy (PInt i) = (i \<noteq> 0)"
| "truthy (PFloat r) = (r \<noteq> 0)"
| "truthy (PStr s) = (s \<noteq> [])"
| "truthy (PList xs) = (xs \<noteq> [])"
| "truthy (PDict kvs) = (kvs \<noteq> [])"

fun is_dict :: "pyval \<Rightarrow> bool" where
  "is_dict (PDict kvs) = True"
| "is_dict v = False"

fun is_str :: "pyval \<Rightarrow> bool" where
  "is_str (PStr s) = True"
| "is_str v = False"

text \<open>\<^verbatim>\<open>d.get(k)\<close> and \<^verbatim>\<open>d.get(k, default)\<close> on a dict.\<close>

definition dict_get :: "(string \<times> pyval) list \<Rightarrow> string \<Rightarrow> pyval" where
  "dict_get kvs k = (case map_of kvs k of None \<Rightarrow> PNone | Some v \<Rightarrow> v)"

definition dict_get_default :: "(string \<times> pyval) list \<Rightarrow> string \<Rightarrow> pyval \<Rightarrow> pyval" where
  "dict_get_default kvs k d = (case map_of kvs k of None \<Rightarrow> d | Some v \<Rightarrow> v)"

text \<open>The exceptions the program meets.\<close>

datatype exn =
    KeyboardInterrupt
  | SystemExit
  | AttributeError
  | TypeError
  | ValueError
  | OSError
  | RuntimeError
  | MidiException
  | UnboundLocalError

text \<open>\<^verbatim>\<open>except Exception\<close> catches everything but the two \<^verbatim>\<open>BaseException\<close>s;
  \<^verbatim>\<open>UnboundLocalError\<close> is a subclass of \<^verbatim>\<open>NameError\<close>.\<close>

fun is_Exception :: "exn \<Rightarrow> bool" where
  "is_Exception KeyboardInterrupt = False"
| "is_Exception SystemExit = False"
| "is_Exception e = True"

fun is_NameError :: "exn \<Rightarrow> bool" where
  "is_NameError UnboundLocalError = True"
| "is_NameError e = False"

text \<open>\<^verbatim>\<open>str(n)\<close> of an integer.\<close>

function str_nat :: "nat \<Rightarrow> string" where
  "str_nat n =
     (if n < 10 then [''0123456789'' ! n]
      else str_nat (n div 10) @ [''0123456789'' ! (n mod 10)])"
  by pat_completeness auto
termination
  by (relation "measure id") auto

declare str_nat.simps [simp del]

definition str_int :: "int \<Rightarrow> string" where
  "str_int i = (if i < 0 then CHR ''-'' # str_nat (nat (- i)) else str_nat (nat i))"

definition lower_char :: "char \<Rightarrow> char" where
  "lower_char c =
     (case map_of (zip ''ABCDEFGHIJKLMNOPQRSTUVWXYZ'' ''abcdefghijklmnopqrstuvwxyz'') c of
        Some d \<Rightarrow> d
      | None \<Rightarrow> c)"

definition lower :: "string \<Rightarrow> string" where
  "lower s = map lower_char s"

definition replace_char :: "char \<Rightarrow> char \<Rightarrow> string \<Rightarrow> string" where
  "replace_char a b s = map (\<lambda>c. if c = a then b else c) s"

text \<open>\<^verbatim>\<open>sub in s\<close> on strings.\<close>

fun contains :: "string \<Rightarrow> string \<Rightarrow> bool" where
  "contains [] sub = (sub = [])"
| "contains (c # cs) sub = (prefix sub (c # cs) \<or> contains cs sub)"

text \<open>
  What the program does to the world, in order. A log record keeps its level and the
  literal text of its message (the interpolated values are left out). The operations of
  the capability layer whose bodies only talk to the operating system
  (\<^verbatim>\<open>set_system_volume\<close>, \<^verbatim>\<open>set_application_volume\<close>, \<^verbatim>\<open>set_screen_brightness\<close> and the
  methods of \<^verbatim>\<open>PadActions\<close>) are recorded as one call each; \<^verbatim>\<open>pyautogui\<close> calls made
  by the relative knob actions are recorded one by one.
\<close>

datatype level = INFO | WARNING | ERROR

datatype capability =
    Pad_method string
  | Set_system_volume real
  | Set_application_volume string real
  | Set_screen_brightness real
  | Hotkey string string
  | Hscroll int
  | Vscroll int

datatype effect =
    Log level string
  | Print string
  | Sleep real
  | Midi_quit
  | Midi_init
  | Input_open nat
  | Input_close
  | Cap capability

fun is_cap :: "effect \<Rightarrow> bool" where
  "is_cap (Cap c) = True"
| "is_cap e = False"

section \<open>Configuration store (config.py)\<close>

text \<open>
  The file at \<^verbatim>\<open>self.config_file\<close>: absent, present but not readable as JSON (\<^verbatim>\<open>open\<close> or
  \<^verbatim>\<open>json.load\<close> raises), or holding a JSON value. \<^verbatim>\<open>json.dump\<close> followed by
  \<^verbatim>\<open>json.load\<close> gives the value back, so the file is modelled by the value it holds.
\<close>

datatype file_state = Missing | Unparsable | Holds pyval

record config =
  pad_mappings :: pyval
  knob_mappings :: pyval
  config_file :: file_state

text \<open>
  What the operating system does with a write: it succeeds, \<^verbatim>\<open>open(..., 'w')\<close> raises
  (the file is untouched), or \<^verbatim>\<open>json.dump\<close> raises after the file was truncated.
\<close>

datatype write_outcome = Written | Open_fails | Dump_fails

text \<open>
  A statement sequence returns the exception that left it (if any), the state it
  reached and the effects it made.
\<close>

type_synonym 'a run = "exn option \<times> 'a \<times> effect list"

definition save_body :: "write_outcome \<Rightarrow> config \<Rightarrow> config run" where
  "save_body w c =
     (case w of
        Written \<Rightarrow>
          (None,
           c\<lparr>config_file :=
               Holds (PDict [(''pad_mappings'', pad_mappings c),
                             (''knob_mappings'', knob_mappings c)])\<rparr>,
           [Log INFO ''Configuration saved successfully''])
      | Open_fails \<Rightarrow> (Some OSError, c, [])
      | Dump_fails \<Rightarrow> (Some OSError, c\<lparr>config_file := Unparsable\<rparr>, []))"

definition save_config :: "write_outcome \<Rightarrow> config \<Rightarrow> config run" where
  "save_config w c =
     (case save_body w c of
        (None, c', tr) \<Rightarrow> (None, c', tr)
      | (Some e, c', tr) \<Rightarrow>
          if is_Exception e then (None, c', tr @ [Log ERROR ''Failed to save config''])
          else (Some e, c', tr))"

definition default_pad_mappings :: pyval where
  "default_pad_mappings = PDict
     [(''36'', PStr ''Previous Track''),
      (''37'', PStr ''Play/Pause Spotify''),
      (''38'', PStr ''Next Track''),
      (''39'', PStr ''Launch/Focus Slack''),
      (''40'', PStr ''Launch/Focus Windsurf''),
      (''41'', PStr ''Voice Recognition''),
      (''42'', PStr ''Toggle Audio Output''),
      (''43'', PStr ''Move to Next Display'')]"

definition knob_record :: "string \<Rightarrow> int \<Rightarrow> int \<Rightarrow> pyval" where
  "knob_record action min_val max_val =
     PDict [(''action'', PStr action), (''min'', PInt min_val), (''max'', PInt max_val)]"

definition default_knob_mappings :: pyval where
  "default_knob_mappings = PDict
     [(''16'', knob_record ''System Volume'' 1 127),
      (''17'', knob_record ''Spotify Volume'' 1 127),
      (''18'', knob_record ''Firefox Volume'' 1 127),
      (''19'', knob_record ''Screen Brightness'' 1 127)]"

definition create_default_config :: "write_outcome \<Rightarrow> config \<Rightarrow> config run" where
  "create_default_config w c =
     save_config w
       (c\<lparr>pad_mappings := default_pad_mappings, knob_mappings := default_knob_mappings\<rparr>)"

text \<open>The body of the \<^verbatim>\<open>try\<close> in \<^verbatim>\<open>load_config\<close>, then the function with its handler.\<close>

definition load_body :: "write_outcome \<Rightarrow> config \<Rightarrow> config run" where
  "load_body w c =
     (case config_file c of
        Holds v \<Rightarrow>
          (case v of
             PDict kvs \<Rightarrow>
               (None,
                c\<lparr>pad_mappings := dict_get_default kvs ''pad_mappings'' (PDict []),
                  knob_mappings := dict_get_default kvs ''knob_mappings'' (PDict [])\<rparr>,
                [Log INFO ''Configuration loaded successfully''])
           | _ \<Rightarrow> (Some AttributeError, c, []))
      | Unparsable \<Rightarrow> (Some ValueError, c, [])
      | Missing \<Rightarrow>
          (case create_default_config w c of
             (r, c', tr) \<Rightarrow> (r, c', Log WARNING ''Config file not found, using defaults'' # tr)))"

definition load_config :: "write_outcome \<Rightarrow> config \<Rightarrow> config run" where
  "load_config w c =
     (case load_body w c of
        (None, c', tr) \<Rightarrow> (None, c', tr)
      | (Some e, c', tr) \<Rightarrow>
          if is_Exception e then
            (case create_default_config w c' of
               (r, c'', tr') \<Rightarrow> (r, c'', tr @ Log ERROR ''Failed to load config'' # tr'))
          else (Some e, c', tr))"

text \<open>\<^verbatim>\<open>Config.__init__\<close>: two empty tables, then \<^verbatim>\<open>load_config\<close>.\<close>

definition Config_init :: "write_outcome \<Rightarrow> file_state \<Rightarrow> config run" where
  "Config_init w f =
     load_config w \<lparr>pad_mappings = PDict [], knob_mappings = PDict [], config_file = f\<rparr>"

text \<open>
  \<^verbatim>\<open>self.pad_mappings[str(note)] = action\<close> raises \<^verbatim>\<open>TypeError\<close> on anything but a dict
  (with a string key), before \<^verbatim>\<open>save_config\<close> is reached. The key is \<^verbatim>\<open>str(note)\<close>.
\<close>

definition update_pad_mapping :: "write_outcome \<Rightarrow> string \<Rightarrow> string \<Rightarrow> config \<Rightarrow> config run" where
  "update_pad_mapping w note action c =
     (case pad_mappings c of
        PDict kvs \<Rightarrow> save_config w (c\<lparr>pad_mappings := PDict (AList.update note (PStr action) kvs)\<rparr>)
      | _ \<Rightarrow> (Some TypeError, c, []))"

definition update_knob_mapping ::
    "write_outcome \<Rightarrow> string \<Rightarrow> string \<Rightarrow> int \<Rightarrow> int \<Rightarrow> config \<Rightarrow> config run" where
  "update_knob_mapping w cc action min_val max_val c =
     (case knob_mappings c of
        PDict kvs \<Rightarrow>
          save_config w
            (c\<lparr>knob_mappings := PDict (AList.update cc (knob_record action min_val max_val) kvs)\<rparr>)
      | _ \<Rightarrow> (Some TypeError, c, []))"

text \<open>\<^verbatim>\<open>self.pad_mappings.get(str(note))\<close>: \<^verbatim>\<open>AttributeError\<close> when the table is no dict.\<close>

definition get_pad_action :: "config \<Rightarrow> string \<Rightarrow> exn + pyval" where
  "get_pad_action c note =
     (case pad_mappings c of
        PDict kvs \<Rightarrow> Inr (dict_get kvs note)
      | _ \<Rightarrow> Inl AttributeError)"

text \<open>\<^verbatim>\<open>get_knob_action\<close> catches the \<^verbatim>\<open>AttributeError\<close> itself, logs it and returns
  \<^verbatim>\<open>None\<close>.\<close>

definition get_knob_action :: "config \<Rightarrow> string \<Rightarrow> pyval \<times> effect list" where
  "get_knob_action c cc =
     (case knob_mappings c of
        PDict kvs \<Rightarrow>
          (let mapping = dict_get kvs cc in
           if truthy mapping \<and> is_dict mapping then
             (case mapping of PDict m \<Rightarrow> (dict_get m ''action'', []) | _ \<Rightarrow> (PNone, []))
           else if truthy mapping \<and> is_str mapping then (mapping, [])
           else (PNone, []))
      | _ \<Rightarrow> (PNone, [Log ERROR ''Error getting knob action for CC'']))"

section \<open>Knob actions (actions/knob_actions.py)\<close>

text \<open>
  The environment of the action layer: which operating-system calls raise an
  \<^verbatim>\<open>Exception\<close> (for a method of \<^verbatim>\<open>PadActions\<close>: whether the method lets one escape; every
  call of one operation with the same arguments behaves alike), and the attributes a
  \<^verbatim>\<open>PadActions\<close> object has from Python itself (those of \<^verbatim>\<open>object\<close> and of the class
  machinery), each with what calling it without arguments does.
\<close>

datatype attr = Action_method | Not_callable | Call_returns | Call_raises

record env =
  cap_raises :: "capability \<Rightarrow> bool"
  builtin_attr :: "string \<Rightarrow> attr option"

definition get_relative_change :: "real \<Rightarrow> real \<Rightarrow> real" where
  "get_relative_change normalized_value sensitivity =
     (let relative = (normalized_value - 0.5) * 2 in relative * sensitivity)"

text \<open>\<^verbatim>\<open>int(x)\<close> of a float truncates towards zero.\<close>

definition py_int :: "real \<Rightarrow> int" where
  "py_int x = (if 0 \<le> x then \<lfloor>x\<rfloor> else - \<lfloor>- x\<rfloor>)"

text \<open>\<^verbatim>\<open>for _ in range(n): pyautogui.hotkey(...)\<close>, left by the first call that raises.\<close>

fun repeat_call :: "env \<Rightarrow> nat \<Rightarrow> capability \<Rightarrow> exn option \<times> effect list" where
  "repeat_call en 0 k = (None, [])"
| "repeat_call en (Suc n) k =
     (if cap_raises en k then (Some RuntimeError, [Cap k])
      else (case repeat_call en n k of (r, tr) \<Rightarrow> (r, Cap k # tr)))"

definition call_once :: "env \<Rightarrow> capability \<Rightarrow> exn option \<times> effect list" where
  "call_once en k = (if cap_raises en k then (Some RuntimeError, [Cap k]) else (None, [Cap k]))"

text \<open>The handler \<^verbatim>\<open>except Exception as e: self.logger.error(...)\<close> of one method.\<close>

definition caught :: "string \<Rightarrow> exn option \<times> effect list \<Rightarrow> exn option \<times> effect list" where
  "caught msg r =
     (case r of
        (None, tr) \<Rightarrow> (None, tr)
      | (Some e, tr) \<Rightarrow> if is_Exception e then (None, tr @ [Log ERROR msg]) else (Some e, tr))"

definition relative_zoom :: "env \<Rightarrow> real \<Rightarrow> exn option \<times> effect list" where
  "relative_zoom en normalized_value =
     caught ''Failed to apply zoom''
       (let change = get_relative_change normalized_value 1.0 in
        if \<bar>change\<bar> < 0.1 then (None, [])
        else
          (case (if change > 0 then repeat_call en (nat (py_int (change * 5))) (Hotkey ''ctrl'' ''+'')
                 else repeat_call en (nat (py_int (\<bar>change\<bar> * 5))) (Hotkey ''ctrl'' ''-''))
           of (r, tr) \<Rightarrow> (r, Log INFO ''Applying zoom change'' # tr)))"

definition horizontal_scroll :: "env \<Rightarrow> real \<Rightarrow> exn option \<times> effect list" where
  "horizontal_scroll en normalized_value =
     caught ''Failed to horizontal scroll''
       (let change = get_relative_change normalized_value 2.0 in
        if \<bar>change\<bar> < 0.1 then (None, [])
        else
          (let scroll_amount = py_int (change * 50) in
           case call_once en (Hscroll scroll_amount) of
             (r, tr) \<Rightarrow> (r, Log INFO ''Horizontal scroll'' # tr)))"

definition vertical_scroll :: "env \<Rightarrow> real \<Rightarrow> exn option \<times> effect list" where
  "vertical_scroll en normalized_value =
     caught ''Failed to vertical scroll''
       (let change = get_relative_change normalized_value 2.0 in
        if \<bar>change\<bar> < 0.1 then (None, [])
        else
          (let scroll_amount = py_int (change * 50) in
           case call_once en (Vscroll scroll_amount) of
             (r, tr) \<Rightarrow> (r, Log INFO ''Vertical scroll'' # tr)))"

text \<open>
  \<^verbatim>\<open>handle_action\<close>: the chain of comparisons of \<open>action\<close> with the seven names. The three
  absolute operations catch every \<^verbatim>\<open>Exception\<close> themselves and are one call each.
\<close>

definition handle_action :: "env \<Rightarrow> pyval \<Rightarrow> real \<Rightarrow> exn option \<times> effect list" where
  "handle_action en action normalized_value =
     caught ''Error executing knob action''
       (if action = PStr ''System Volume'' then
          (None, [Cap (Set_system_volume normalized_value)])
        else if action = PStr ''Spotify Volume'' then
          (None, [Cap (Set_application_volume ''spotify.exe'' normalized_value)])
        else if action = PStr ''Firefox Volume'' then
          (None, [Cap (Set_application_volume ''firefox.exe'' normalized_value)])
        else if action = PStr ''Screen Brightness'' then
          (None, [Cap (Set_screen_brightness normalized_value)])
        else if action = PStr ''Relative Zoom'' then relative_zoom en normalized_value
        else if action = PStr ''Horizontal Scroll'' then horizontal_scroll en normalized_value
        else if action = PStr ''Vertical Scroll'' then vertical_scroll en normalized_value
        else (None, [Log WARNING ''Unknown knob action'']))"

section \<open>Pad actions (actions/pad_actions.py)\<close>

text \<open>The methods of \<^verbatim>\<open>PadActions\<close>, and the attributes its \<^verbatim>\<open>__init__\<close> sets.\<close>

definition pad_methods :: "string list" where
  "pad_methods =
     [''previous_track'', ''play_pause_spotify'', ''next_track'', ''launch_focus_slack'',
      ''launch_focus_windsurf'', ''voice_recognition'', ''toggle_audio_output'',
      ''move_to_next_display'', ''minimize_window'', ''maximize_window'', ''switch_window'',
      ''open_file_explorer'', ''show_desktop'']"

definition pad_fields :: "string list" where
  "pad_fields = [''logger'', ''window_utils'', ''process_utils'']"

text \<open>\<^verbatim>\<open>getattr(self.pad_actions, name)\<close>; \<open>None\<close> is \<^verbatim>\<open>hasattr\<close> being false.\<close>

definition pad_attr :: "env \<Rightarrow> string \<Rightarrow> attr option" where
  "pad_attr en name =
     (if name \<in> set pad_methods then Some Action_method
      else if name \<in> set pad_fields then Some Not_callable
      else if name = ''__init__'' then Some Call_returns
      else builtin_attr en name)"

section \<open>The controller (controller.py)\<close>

text \<open>\<^verbatim>\<open>action.lower().replace('/', '_').replace(' ', '_')\<close>\<close>

definition method_name :: "string \<Rightarrow> string" where
  "method_name action = replace_char CHR '' '' CHR ''_'' (replace_char CHR ''/'' CHR ''_'' (lower action))"

text \<open>
  \<^verbatim>\<open>handle_pad_action\<close>. The lookup stands before the \<^verbatim>\<open>try\<close>, so its exception leaves
  the function. A value that is no string has no \<^verbatim>\<open>lower\<close>; calling an attribute that is
  not callable raises \<^verbatim>\<open>TypeError\<close>; both are caught and logged.
\<close>

definition handle_pad_action :: "env \<Rightarrow> config \<Rightarrow> int \<Rightarrow> exn option \<times> effect list" where
  "handle_pad_action en c note =
     (case get_pad_action c (str_int note) of
        Inl e \<Rightarrow> (Some e, [])
      | Inr action \<Rightarrow>
          if truthy action then
            caught ''Error executing pad action''
              (case action of
                 PStr a \<Rightarrow>
                   (case pad_attr en (method_name a) of
                      None \<Rightarrow> (None, [Log WARNING ''No handler found for pad action''])
                    | Some Action_method \<Rightarrow> call_once en (Pad_method (method_name a))
                    | Some Not_callable \<Rightarrow> (Some TypeError, [])
                    | Some Call_returns \<Rightarrow> (None, [])
                    | Some Call_raises \<Rightarrow> (Some TypeError, []))
               | _ \<Rightarrow> (Some AttributeError, []))
          else (None, []))"

definition normalized_value :: "int \<Rightarrow> real" where
  "normalized_value v = real_of_int v / 127.0"

definition handle_knob_action :: "env \<Rightarrow> config \<Rightarrow> int \<Rightarrow> int \<Rightarrow> exn option \<times> effect list" where
  "handle_knob_action en c cc v =
     (case get_knob_action c (str_int cc) of
        (action, tr0) \<Rightarrow>
          if truthy action then
            (case caught ''Error executing knob action''
                    (case handle_action en action (normalized_value v) of
                       (r, tr) \<Rightarrow>
                         (r, Log INFO ''Received knob CC'' # Log INFO ''Normalized value'' # tr))
             of (r, tr) \<Rightarrow> (r, tr0 @ tr))
          else (None, tr0))"

text \<open>One event of the \<^verbatim>\<open>for\<close> loop in \<^verbatim>\<open>start_monitoring\<close>: status, data1, data2.\<close>

type_synonym midi_event = "int \<times> int \<times> int"

definition dispatch :: "env \<Rightarrow> config \<Rightarrow> midi_event \<Rightarrow> exn option \<times> effect list" where
  "dispatch en c ev =
     (case ev of
        (status, data1, data2) \<Rightarrow>
          if status = 144 \<and> data2 > 0 then handle_pad_action en c data1
          else if status = 176 then handle_knob_action en c data1 data2
          else (None, []))"

fun process_events :: "env \<Rightarrow> config \<Rightarrow> midi_event list \<Rightarrow> exn option \<times> effect list" where
  "process_events en c [] = (None, [])"
| "process_events en c (ev # evs) =
     (case dispatch en c ev of
        (Some e, tr) \<Rightarrow> (Some e, tr)
      | (None, tr) \<Rightarrow> (case process_events en c evs of (r, tr') \<Rightarrow> (r, tr @ tr')))"

section \<open>The MIDI device (controller.py, over pygame.midi)\<close>

text \<open>
  The state of \<^verbatim>\<open>pygame.midi\<close> the controller works on: the module's initialised flag,
  and the \<^verbatim>\<open>Input\<close> object held in \<^verbatim>\<open>self.midi_input\<close> with its stream open or closed.
  \<^verbatim>\<open>pygame.midi.quit\<close> may be called any number of times. \<^verbatim>\<open>Input.close\<close>, \<^verbatim>\<open>Input.poll\<close>
  and \<^verbatim>\<open>Input.read\<close> first check the module flag and raise \<^verbatim>\<open>RuntimeError\<close>
  (\<^verbatim>\<open>pygame.midi not initialised.\<close>) when it is not set; \<^verbatim>\<open>poll\<close> and \<^verbatim>\<open>read\<close> raise
  \<^verbatim>\<open>MidiException\<close> on a closed stream.
\<close>

record midi_in =
  device_id :: nat
  is_open :: bool

record controller =
  cfg :: config
  midi_input :: "midi_in option"
  midi_ready :: bool

definition input_close :: "controller \<Rightarrow> controller run" where
  "input_close ct =
     (case midi_input ct of
        None \<Rightarrow> (None, ct, [])
      | Some h \<Rightarrow>
          if midi_ready ct then (None, ct\<lparr>midi_input := Some (h\<lparr>is_open := False\<rparr>)\<rparr>, [Input_close])
          else (Some RuntimeError, ct, [Input_close]))"

definition midi_quit :: "controller \<Rightarrow> controller" where
  "midi_quit ct = ct\<lparr>midi_ready := False\<rparr>"

text \<open>
  One device as \<^verbatim>\<open>get_device_info\<close> reports it, with whether \<^verbatim>\<open>pygame.midi.Input\<close>
  opens it. One attempt of the environment: \<^verbatim>\<open>pygame.midi.init\<close> raises, the
  enumeration raises after it, or the devices are listed.
\<close>

record device =
  dev_name :: string
  dev_input :: bool
  dev_output :: bool
  dev_opens :: bool

datatype attempt = Init_raises | Enum_raises | Listing "device list"

text \<open>The first index whose lower-cased name contains \<^verbatim>\<open>mpk mini\<close> and that is an input.\<close>

fun find_mpk :: "nat \<Rightarrow> device list \<Rightarrow> (nat \<times> device) option" where
  "find_mpk i [] = None"
| "find_mpk i (d # ds) =
     (if contains (lower (dev_name d)) ''mpk mini'' \<and> dev_input d then Some (i, d)
      else find_mpk (Suc i) ds)"

text \<open>The body of the \<^verbatim>\<open>try\<close> in \<^verbatim>\<open>initialize_midi\<close>; it ends in a \<^verbatim>\<open>return\<close> or an exception.\<close>

definition attempt_body :: "attempt \<Rightarrow> controller \<Rightarrow> controller run" where
  "attempt_body a ct =
     (case input_close ct of
        (Some e, ct1, tr1) \<Rightarrow> (Some e, ct1, tr1)
      | (None, ct1, tr1) \<Rightarrow>
          (case a of
             Init_raises \<Rightarrow> (Some RuntimeError, midi_quit ct1, tr1 @ [Midi_quit, Midi_init])
           | Enum_raises \<Rightarrow>
               (Some MidiException, ct1\<lparr>midi_ready := True\<rparr>, tr1 @ [Midi_quit, Midi_init])
           | Listing ds \<Rightarrow>
               (let ct2 = ct1\<lparr>midi_ready := True\<rparr>;
                    tr2 = tr1 @ [Midi_quit, Midi_init, Log INFO ''Found MIDI devices'']
                            @ map (\<lambda>d. Log INFO ''Device'') ds
                in case find_mpk 0 ds of
                     None \<Rightarrow> (None, ct2, tr2 @ [Log ERROR ''Akai MPK Mini not found''])
                   | Some (i, d) \<Rightarrow>
                       if dev_opens d then
                         (None, ct2\<lparr>midi_input := Some \<lparr>device_id = i, is_open = True\<rparr>\<rparr>,
                          tr2 @ [Input_open i, Log INFO ''Connected to MIDI device''])
                       else (Some MidiException, ct2, tr2 @ [Input_open i]))))"

definition max_retries :: nat where
  "max_retries = 3"

text \<open>The \<^verbatim>\<open>while retry_count < max_retries\<close> loop; \<open>atts n\<close> is what the environment does
  on the attempt made with \<open>retry_count = n\<close>.\<close>

function initialize_loop :: "(nat \<Rightarrow> attempt) \<Rightarrow> nat \<Rightarrow> controller \<Rightarrow> controller run" where
  "initialize_loop atts retry_count ct =
     (if retry_count < max_retries then
        (case attempt_body (atts retry_count) ct of
           (None, ct', tr) \<Rightarrow> (None, ct', tr)
         | (Some e, ct', tr) \<Rightarrow>
             if is_Exception e then
               (case initialize_loop atts (retry_count + 1) ct' of
                  (r, ct'', tr') \<Rightarrow>
                    (r, ct'',
                     tr @ Log WARNING ''Failed to initialize MIDI''
                        # (if retry_count + 1 < max_retries
                           then [Log INFO ''Retrying in 1 second...'', Sleep 1]
                           else [Log ERROR ''Failed to initialize MIDI after multiple attempts''])
                        @ tr'))
             else (Some e, ct', tr))
      else (None, ct, []))"
  by pat_completeness auto
termination
  by (relation "measure (\<lambda>(atts, retry_count, ct). max_retries - retry_count)") auto

declare initialize_loop.simps [simp del]

definition initialize_midi :: "(nat \<Rightarrow> attempt) \<Rightarrow> controller \<Rightarrow> controller run" where
  "initialize_midi atts ct = initialize_loop atts 0 ct"

text \<open>
  What the start of the process meets: an exception raised while the object is built
  outside the parts modelled below (\<^verbatim>\<open>setup_logging\<close> creating the log directory and
  file, or an interrupt), the configuration file and what a write to it does, whether
  the WMI connection made by \<^verbatim>\<open>KnobActions.__init__\<close> raises, and the attempts.
\<close>

record startup =
  init_fault :: "exn option"
  file_found :: file_state
  file_write :: write_outcome
  wmi_fault :: bool
  attempts :: "nat \<Rightarrow> attempt"

text \<open>\<^verbatim>\<open>KnobActions.__init__\<close> catches what the WMI connection raises and logs either way;
  \<^verbatim>\<open>PadActions.__init__\<close> only stores its helpers.\<close>

definition KnobActions_init :: "bool \<Rightarrow> effect list" where
  "KnobActions_init fault =
     (if fault then [Log ERROR ''Failed to initialize WMI'']
      else [Log INFO ''WMI initialized successfully''])"

text \<open>\<^verbatim>\<open>AkaiMPKMiniAutomation.__init__\<close>: \<open>Inl e\<close> when it raises \<open>e\<close>, else the object.\<close>

definition AkaiMPKMiniAutomation :: "startup \<Rightarrow> (exn + controller) \<times> effect list" where
  "AkaiMPKMiniAutomation su =
     (case init_fault su of
        Some e \<Rightarrow> (Inl e, [])
      | None \<Rightarrow>
          (case Config_init (file_write su) (file_found su) of
             (Some e, c, tr) \<Rightarrow> (Inl e, tr)
           | (None, c, tr) \<Rightarrow>
               (case initialize_midi (attempts su)
                       \<lparr>cfg = c, midi_input = None, midi_ready = False\<rparr> of
                  (Some e, ct, tr') \<Rightarrow>
                    (Inl e, tr @ KnobActions_init (wmi_fault su) @ tr')
                | (None, ct, tr') \<Rightarrow>
                    (Inr ct, tr @ KnobActions_init (wmi_fault su) @ tr'))))"

text \<open>
  One turn of \<^verbatim>\<open>while True\<close> as the environment scripts it: \<^verbatim>\<open>poll\<close> is false, \<^verbatim>\<open>read\<close>
  returns a batch of events, or an exception arrives (an interrupt among them; interrupts
  are modelled where the loop polls or sleeps, not inside a handler). The loop has no
  exit of its own: when the script is used up it is still polling, which is the result
  \<open>None\<close> of \<open>monitor\<close>; \<open>Some e\<close> is the exception that left the loop.
\<close>

datatype poll = Idle | Batch "midi_event list" | Poll_raises exn

fun monitor :: "env \<Rightarrow> controller \<Rightarrow> poll list \<Rightarrow> exn option \<times> effect list" where
  "monitor en ct [] = (None, [])"
| "monitor en ct (p # ps) =
     (if \<not> midi_ready ct then (Some RuntimeError, [])
      else if \<not> (case midi_input ct of None \<Rightarrow> False | Some h \<Rightarrow> is_open h)
        then (Some MidiException, [])
      else
        (case p of
           Idle \<Rightarrow> (case monitor en ct ps of (r, tr) \<Rightarrow> (r, Sleep 0.001 # tr))
         | Batch evs \<Rightarrow>
             (case process_events en (cfg ct) evs of
                (Some e, tr) \<Rightarrow> (Some e, tr)
              | (None, tr) \<Rightarrow>
                  (case monitor en ct ps of (r, tr') \<Rightarrow> (r, tr @ Sleep 0.001 # tr')))
         | Poll_raises e \<Rightarrow> (Some e, [])))"

text \<open>How a call ends: it is still in its loop, it returned, or it raised.\<close>

datatype status = Polling | Returned | Raised exn

text \<open>The \<^verbatim>\<open>finally\<close> clause of \<^verbatim>\<open>start_monitoring\<close>, and \<^verbatim>\<open>cleanup\<close>.\<close>

definition release :: "controller \<Rightarrow> controller run" where
  "release ct =
     (case input_close ct of
        (Some e, ct1, tr1) \<Rightarrow> (Some e, ct1, tr1)
      | (None, ct1, tr1) \<Rightarrow> (None, midi_quit ct1, tr1 @ [Midi_quit]))"

definition cleanup :: "controller \<Rightarrow> controller run" where
  "cleanup ct =
     (case input_close ct of
        (Some e, ct1, tr1) \<Rightarrow> (Some e, ct1, tr1)
      | (None, ct1, tr1) \<Rightarrow>
          (None, midi_quit ct1, tr1 @ [Midi_quit, Log INFO ''Cleaned up resources'']))"

definition start_monitoring :: "env \<Rightarrow> poll list \<Rightarrow> controller \<Rightarrow> status \<times> controller \<times> effect list" where
  "start_monitoring en polls ct =
     (case midi_input ct of
        None \<Rightarrow> (Returned, ct, [Log ERROR ''No MIDI input device available''])
      | Some h \<Rightarrow>
          (case monitor en ct polls of
             (None, tr) \<Rightarrow> (Polling, ct, Log INFO ''Started monitoring MIDI input'' # tr)
           | (Some e, tr) \<Rightarrow>
               (let handler =
                      (if e = KeyboardInterrupt then [Log INFO ''Stopping MIDI monitoring'']
                       else if is_Exception e then [Log ERROR ''Error in MIDI monitoring'']
                       else [])
                in case release ct of
                     (Some e', ct', tr') \<Rightarrow>
                       (Raised e', ct',
                        Log INFO ''Started monitoring MIDI input'' # tr @ handler @ tr')
                   | (None, ct', tr') \<Rightarrow>
                       (if e = KeyboardInterrupt \<or> is_Exception e then Returned else Raised e,
                        ct',
                        Log INFO ''Started monitoring MIDI input'' # tr @ handler @ tr'))))"

section \<open>The entry points (main.py and controller.py)\<close>

text \<open>
  The \<^verbatim>\<open>finally\<close> clause reads the local variable; it is bound only when the constructor
  returned. \<open>bound\<close> is the object the variable holds, if any.
\<close>

definition finally_cleanup :: "controller option \<Rightarrow> status \<Rightarrow> status \<times> effect list" where
  "finally_cleanup bound st =
     (case bound of
        None \<Rightarrow> (Raised UnboundLocalError, [])
      | Some ct \<Rightarrow>
          (case cleanup ct of
             (Some e, ct', tr) \<Rightarrow> (Raised e, tr)
           | (None, ct', tr) \<Rightarrow> (st, tr)))"

text \<open>\<^verbatim>\<open>main\<close> of main.py, from the outcome of the constructor on.\<close>

definition main_py_handlers :: "exn \<Rightarrow> status \<times> effect list" where
  "main_py_handlers e =
     (if e = KeyboardInterrupt then (Returned, [Print ''Shutting down...''])
      else if is_Exception e then (Returned, [Print ''Error''])
      else (Raised e, []))"

definition main_py_from ::
    "env \<Rightarrow> poll list \<Rightarrow> (exn + controller) \<times> effect list \<Rightarrow> status \<times> effect list" where
  "main_py_from en polls built =
     (case built of
        (Inl e, tr) \<Rightarrow>
          (case main_py_handlers e of
             (st, tr1) \<Rightarrow>
               (case finally_cleanup None st of (st', tr2) \<Rightarrow> (st', tr @ tr1 @ tr2)))
      | (Inr ct, tr) \<Rightarrow>
          (case start_monitoring en polls ct of
             (Polling, ct', tr1) \<Rightarrow>
               (Polling, tr @ Print ''MIDI Controller started. Press Ctrl+C to exit.'' # tr1)
           | (Returned, ct', tr1) \<Rightarrow>
               (case finally_cleanup (Some ct') Returned of
                  (st', tr2) \<Rightarrow>
                    (st', tr @ Print ''MIDI Controller started. Press Ctrl+C to exit.'' # tr1 @ tr2))
           | (Raised e, ct', tr1) \<Rightarrow>
               (case main_py_handlers e of
                  (st, tr2) \<Rightarrow>
                    (case finally_cleanup (Some ct') st of
                       (st', tr3) \<Rightarrow>
                         (st',
                          tr @ Print ''MIDI Controller started. Press Ctrl+C to exit.''
                             # tr1 @ tr2 @ tr3)))))"

definition main_py :: "startup \<Rightarrow> env \<Rightarrow> poll list \<Rightarrow> status \<times> effect list" where
  "main_py su en polls = main_py_from en polls (AkaiMPKMiniAutomation su)"

text \<open>\<^verbatim>\<open>main\<close> of controller.py: one handler, for \<^verbatim>\<open>Exception\<close>, logging on the root logger.\<close>

definition controller_handlers :: "exn \<Rightarrow> status \<times> effect list" where
  "controller_handlers e =
     (if is_Exception e then (Returned, [Log ERROR ''Application error'']) else (Raised e, []))"

definition controller_main_from ::
    "env \<Rightarrow> poll list \<Rightarrow> (exn + controller) \<times> effect list \<Rightarrow> status \<times> effect list" where
  "controller_main_from en polls built =
     (case built of
        (Inl e, tr) \<Rightarrow>
          (case controller_handlers e of
             (st, tr1) \<Rightarrow>
               (case finally_cleanup None st of (st', tr2) \<Rightarrow> (st', tr @ tr1 @ tr2)))
      | (Inr ct, tr) \<Rightarrow>
          (case start_monitoring en polls ct of
             (Polling, ct', tr1) \<Rightarrow> (Polling, tr @ tr1)
           | (Returned, ct', tr1) \<Rightarrow>
               (case finally_cleanup (Some ct') Returned of (st', tr2) \<Rightarrow> (st', tr @ tr1 @ tr2))
           | (Raised e, ct', tr1) \<Rightarrow>
               (case controller_handlers e of
                  (st, tr2) \<Rightarrow>
                    (case finally_cleanup (Some ct') st of
                       (st', tr3) \<Rightarrow> (st', tr @ tr1 @ tr2 @ tr3)))))"

definition controller_main :: "startup \<Rightarrow> env \<Rightarrow> poll list \<Rightarrow> status \<times> effect list" where
  "controller_main su en polls = controller_main_from en polls (AkaiMPKMiniAutomation su)"

section \<open>Vocabulary of the properties\<close>

text \<open>
  The action names the code knows: the seven strings \<^verbatim>\<open>handle_action\<close> compares with, and
  the names of the thirteen methods of \<^verbatim>\<open>PadActions\<close> as their docstrings spell them (the
  first eight are the values of the default pad table).
\<close>

definition knob_action_names :: "string list" where
  "knob_action_names =
     [''System Volume'', ''Spotify Volume'', ''Firefox Volume'', ''Screen Brightness'',
      ''Relative Zoom'', ''Horizontal Scroll'', ''Vertical Scroll'']"

definition pad_action_names :: "string list" where
  "pad_action_names =
     [''Previous Track'', ''Play/Pause Spotify'', ''Next Track'', ''Launch/Focus Slack'',
      ''Launch/Focus Windsurf'', ''Voice Recognition'', ''Toggle Audio Output'',
      ''Move to Next Display'', ''Minimize Window'', ''Maximize Window'', ''Switch Window'',
      ''Open File Explorer'', ''Show Desktop'']"




text \<open>Concrete inputs: the default tables, an environment in which nothing raises, a
  controller before and after it connected, and two devices.\<close>

definition default_config :: "file_state \<Rightarrow> config" where
  "default_config f =
     \<lparr>pad_mappings = default_pad_mappings, knob_mappings = default_knob_mappings,
      config_file = f\<rparr>"

definition quiet_env :: env where
  "quiet_env = \<lparr>cap_raises = (\<lambda>k. False), builtin_attr = (\<lambda>s. None)\<rparr>"


definition connected_controller :: controller where
  "connected_controller =
     \<lparr>cfg = default_config Missing, midi_input = Some \<lparr>device_id = 1, is_open = True\<rparr>,
      midi_ready = True\<rparr>"

definition mpk_device :: device where
  "mpk_device =
     \<lparr>dev_name = ''MPK mini 3'', dev_input = True, dev_output = False, dev_opens = True\<rparr>"

definition synth_device :: device where
  "synth_device =
     \<lparr>dev_name = ''Microsoft GS Wavetable Synth'', dev_input = False, dev_output = True,
      dev_opens = True\<rparr>"

definition failing_startup :: startup where
  "failing_startup =
     \<lparr>init_fault = Some OSError, file_found = Missing, file_write = Written,
      wmi_fault = False, attempts = (\<lambda>n. Init_raises)\<rparr>"

section \<open>Properties of the configuration store\<close>

lemma save_config_returns: "fst (save_config w c) = None"
  by (cases w) (simp_all add: save_config_def save_body_def)

lemma save_config_tables:
  "pad_mappings (fst (snd (save_config w c))) = pad_mappings c \<and>
   knob_mappings (fst (snd (save_config w c))) = knob_mappings c"
  by (cases w) (simp_all add: save_config_def save_body_def)

lemma dict_get_update: "dict_get (AList.update k v kvs) k = v"
  by (simp add: dict_get_def update_conv')

section \<open>Evaluation lemmas\<close>

lemma str_int_keys:
  "str_int 16 = ''16''" "str_int 17 = ''17''" "str_int 36 = ''36''" "str_int 40 = ''40''"
  by (simp_all add: str_int_def str_nat.simps)

lemma method_name_windsurf: "method_name ''Launch/Focus Windsurf'' = ''launch_focus_windsurf''"
  by (simp add: method_name_def lower_def lower_char_def replace_char_def)

lemma pad_names_methods: "map method_name pad_action_names = pad_methods"
  by (simp add: pad_action_names_def pad_methods_def method_name_def lower_def lower_char_def
        replace_char_def)

lemma find_mpk_example: "find_mpk 0 [synth_device, mpk_device] = Some (1, mpk_device)"
  by (simp add: synth_device_def mpk_device_def lower_def lower_char_def)

section \<open>No exception leaves the knob handlers\<close>

lemma repeat_call_exn:
  "fst (repeat_call en n k) = None \<or> fst (repeat_call en n k) = Some RuntimeError"
  by (induction n) (auto split: prod.splits)

lemma caught_Exception:
  "fst r = None \<or> fst r = Some RuntimeError \<Longrightarrow> fst (caught msg r) = None"
  by (cases r) (auto simp add: caught_def)

lemma fst_case_run: "fst (case x of (r, tr) \<Rightarrow> (r, f tr)) = fst x"
  by (cases x) simp

lemma relative_zoom_returns: "fst (relative_zoom en v) = None"
  unfolding relative_zoom_def Let_def
  by (rule caught_Exception) (simp add: fst_case_run repeat_call_exn)

lemma horizontal_scroll_returns: "fst (horizontal_scroll en v) = None"
  unfolding horizontal_scroll_def Let_def
  by (rule caught_Exception) (simp add: fst_case_run call_once_def)

lemma vertical_scroll_returns: "fst (vertical_scroll en v) = None"
  unfolding vertical_scroll_def Let_def
  by (rule caught_Exception) (simp add: fst_case_run call_once_def)

lemma handle_action_returns: "fst (handle_action en a v) = None"
  unfolding handle_action_def
  by (rule caught_Exception)
     (simp add: relative_zoom_returns horizontal_scroll_returns vertical_scroll_returns)

lemma handle_knob_action_mapped:
  assumes "truthy (fst (get_knob_action c (str_int cc)))"
  shows "handle_knob_action en c cc r =
     (None,
      snd (get_knob_action c (str_int cc))
        @ Log INFO ''Received knob CC'' # Log INFO ''Normalized value''
        # snd (handle_action en (fst (get_knob_action c (str_int cc))) (normalized_value r)))"
proof -
  obtain a tr0 where g: "get_knob_action c (str_int cc) = (a, tr0)"
    by (cases "get_knob_action c (str_int cc)")
  obtain x tr where h: "handle_action en a (normalized_value r) = (x, tr)"
    by (cases "handle_action en a (normalized_value r)")
  have "x = None"
    using handle_action_returns [of en a "normalized_value r"] h by simp
  with assms g h show ?thesis
    by (simp add: handle_knob_action_def caught_def)
qed

lemma handle_knob_action_returns: "fst (handle_knob_action en c cc r) = None"
proof (cases "truthy (fst (get_knob_action c (str_int cc)))")
  case True
  then show ?thesis by (simp add: handle_knob_action_mapped)
next
  case False
  then show ?thesis
    by (cases "get_knob_action c (str_int cc)") (simp add: handle_knob_action_def)
qed

section \<open>The scenario of the default tables\<close>

lemma pad_40:
  "handle_pad_action en (default_config f) 40 =
     (None, Cap (Pad_method ''launch_focus_windsurf'')
        # (if cap_raises en (Pad_method ''launch_focus_windsurf'')
           then [Log ERROR ''Error executing pad action''] else []))"
  by (simp add: handle_pad_action_def get_pad_action_def default_config_def
        default_pad_mappings_def str_int_keys dict_get_def method_name_windsurf pad_attr_def
        pad_methods_def call_once_def caught_def)

lemma knob_16:
  "handle_knob_action en (default_config f) 16 64 =
     (None, [Log INFO ''Received knob CC'', Log INFO ''Normalized value'',
             Cap (Set_system_volume (64 / 127))])"
  by (simp add: handle_knob_action_def get_knob_action_def default_config_def
        default_knob_mappings_def knob_record_def str_int_keys dict_get_def handle_action_def
        caught_def normalized_value_def)

lemma knob_17:
  "handle_knob_action en (default_config f) 17 0 =
     (None, [Log INFO ''Received knob CC'', Log INFO ''Normalized value'',
             Cap (Set_application_volume ''spotify.exe'' 0)])"
  by (simp add: handle_knob_action_def get_knob_action_def default_config_def
        default_knob_mappings_def knob_record_def str_int_keys dict_get_def handle_action_def
        caught_def normalized_value_def)

section \<open>The retry loop\<close>















section \<open>Releasing the device twice\<close>


lemma cleanup_twice:
  "fst (cleanup (fst (snd (cleanup ct)))) =
     (if midi_input ct = None then None else Some RuntimeError)"
  by (cases "midi_input ct"; cases "midi_ready ct")
     (simp_all add: cleanup_def input_close_def midi_quit_def)

section \<open>The claims\<close>

text \<open>
  C1. An event with status 144 and \<open>data2 > 0\<close> goes to \<^verbatim>\<open>handle_pad_action\<close> with
  \<open>data1\<close>, an event with status 176 goes to \<^verbatim>\<open>handle_knob_action\<close> with \<open>data1\<close> and
  \<open>data2\<close>, and any other event (a status 144 with \<open>data2 = 0\<close> among them) does nothing
  and leaves the rest of the batch as it is. With the default tables the stream
  \<open>(144,40,100), (176,16,64), (176,17,0), (144,36,0)\<close> makes exactly three calls of the
  capability layer: the Windsurf method, the system volume at \<open>64/127\<close> (0.504 to three
  places) and the volume of \<open>spotify.exe\<close> at 0; the last event adds nothing.
\<close>

theorem classify_and_dispatch:
  "(status = 144 \<and> 0 < data2 \<longrightarrow>
      dispatch en c (status, data1, data2) = handle_pad_action en c data1) \<and>
   (status = 176 \<longrightarrow>
      dispatch en c (status, data1, data2) = handle_knob_action en c data1 data2) \<and>
   (\<not> (status = 144 \<and> 0 < data2) \<and> status \<noteq> 176 \<longrightarrow>
      dispatch en c (status, data1, data2) = (None, []) \<and>
      process_events en c ((status, data1, data2) # evs) = process_events en c evs) \<and>
   dispatch en c (144, data1, 0) = (None, []) \<and>
   process_events en (default_config f) [(144, 40, 100), (176, 16, 64), (176, 17, 0), (144, 36, 0)] =
     (None,
      Cap (Pad_method ''launch_focus_windsurf'')
      # (if cap_raises en (Pad_method ''launch_focus_windsurf'')
         then [Log ERROR ''Error executing pad action''] else [])
      @ [Log INFO ''Received knob CC'', Log INFO ''Normalized value'',
         Cap (Set_system_volume (64 / 127)),
         Log INFO ''Received knob CC'', Log INFO ''Normalized value'',
         Cap (Set_application_volume ''spotify.exe'' 0)]) \<and>
   filter is_cap (snd (process_events en (default_config f)
       [(144, 40, 100), (176, 16, 64), (176, 17, 0), (144, 36, 0)])) =
     [Cap (Pad_method ''launch_focus_windsurf''), Cap (Set_system_volume (64 / 127)),
      Cap (Set_application_volume ''spotify.exe'' 0)] \<and>
   \<bar>(64 / 127 :: real) - 0.504\<bar> < 0.0005"
  by (simp add: dispatch_def pad_40 knob_16 knob_17)

text \<open>C1 on a note-off (status 128) followed by a note-on of velocity zero: nothing happens.\<close>

theorem classify_and_dispatch_witness:
  "dispatch quiet_env (default_config Missing) (128, 36, 64) = (None, []) \<and>
   process_events quiet_env (default_config Missing) [(128, 36, 64), (144, 36, 0)] = (None, []) \<and>
   dispatch quiet_env (default_config Missing) (144, 40, 100) =
     handle_pad_action quiet_env (default_config Missing) 40 \<and>
   dispatch quiet_env (default_config Missing) (176, 16, 64) =
     handle_knob_action quiet_env (default_config Missing) 16 64"
  using classify_and_dispatch
      [where status = 128 and ?data1.0 = 36 and ?data2.0 = 64 and en = quiet_env
         and c = "default_config Missing" and evs = "[(144, 36, 0)]" and f = Missing]
    classify_and_dispatch
      [where status = 144 and ?data1.0 = 40 and ?data2.0 = 100 and en = quiet_env
         and c = "default_config Missing" and evs = "[]" and f = Missing]
    classify_and_dispatch
      [where status = 176 and ?data1.0 = 16 and ?data2.0 = 64 and en = quiet_env
         and c = "default_config Missing" and evs = "[]" and f = Missing]
    classify_and_dispatch
      [where status = 144 and ?data1.0 = 36 and ?data2.0 = 0 and en = quiet_env
         and c = "default_config Missing" and evs = "[]" and f = Missing]
  by simp

text \<open>
  C2. For Relative Zoom (sensitivity 1.0), Horizontal Scroll and Vertical Scroll
  (sensitivity 2.0) and every normalized value \<open>v\<close>: when the change
  \<open>(v - 0.5) * 2 * sensitivity\<close> is smaller than 0.1 in magnitude, the handler returns
  normally with no effect at all (no keystroke, no scroll, no log record), called
  directly or through \<^verbatim>\<open>handle_action\<close>.
\<close>

theorem deadzone_no_capability:
  "(\<bar>get_relative_change v 1.0\<bar> < 0.1 \<longrightarrow>
      relative_zoom en v = (None, []) \<and>
      handle_action en (PStr ''Relative Zoom'') v = (None, [])) \<and>
   (\<bar>get_relative_change v 2.0\<bar> < 0.1 \<longrightarrow>
      horizontal_scroll en v = (None, []) \<and>
      vertical_scroll en v = (None, []) \<and>
      handle_action en (PStr ''Horizontal Scroll'') v = (None, []) \<and>
      handle_action en (PStr ''Vertical Scroll'') v = (None, [])) \<and>
   get_relative_change v s = (v - 0.5) * 2 * s"
  by (simp add: relative_zoom_def horizontal_scroll_def vertical_scroll_def handle_action_def
        caught_def Let_def get_relative_change_def)

text \<open>C2 at \<open>v = 0.52\<close>: the changes are 0.04 and 0.08.\<close>

theorem deadzone_no_capability_witness:
  "\<bar>get_relative_change 0.52 1.0\<bar> < 0.1 \<and> \<bar>get_relative_change 0.52 2.0\<bar> < 0.1 \<and>
   0 \<le> (0.52::real) \<and> (0.52::real) \<le> 1 \<and>
   handle_action quiet_env (PStr ''Relative Zoom'') 0.52 = (None, []) \<and>
   handle_action quiet_env (PStr ''Horizontal Scroll'') 0.52 = (None, []) \<and>
   handle_action quiet_env (PStr ''Vertical Scroll'') 0.52 = (None, [])"
  using deadzone_no_capability [where v = "0.52" and en = quiet_env and s = 1]
  by (simp add: get_relative_change_def)

text \<open>
  C3. For every note \<open>n\<close> and action name \<open>A\<close>, on a pad table that is a dict:
  \<^verbatim>\<open>update_pad_mapping(n, A)\<close> returns normally and \<^verbatim>\<open>get_pad_action(n)\<close> then gives \<open>A\<close>;
  and when the update's save was written to the file, the lookup still gives \<open>A\<close> after
  a reload, by \<^verbatim>\<open>load_config\<close> on the same object or by a fresh \<^verbatim>\<open>Config\<close> on the file,
  whatever a write does during that reload.
\<close>

theorem pad_mapping_round_trip:
  "pad_mappings c = PDict kvs \<Longrightarrow>
   fst (update_pad_mapping w (str_int n) A c) = None \<and>
   get_pad_action (fst (snd (update_pad_mapping w (str_int n) A c))) (str_int n) = Inr (PStr A) \<and>
   (w = Written \<longrightarrow>
      get_pad_action
        (fst (snd (load_config w' (fst (snd (update_pad_mapping w (str_int n) A c))))))
        (str_int n) = Inr (PStr A) \<and>
      get_pad_action
        (fst (snd (Config_init w'
           (config_file (fst (snd (update_pad_mapping w (str_int n) A c)))))))
        (str_int n) = Inr (PStr A))"
  by (cases w)
     (simp_all add: update_pad_mapping_def save_config_def save_body_def get_pad_action_def
        dict_get_update load_config_def load_body_def Config_init_def dict_get_default_def)

text \<open>C3 at note 36, remapped from the default to \<open>Next Track\<close> and reloaded.\<close>

theorem pad_mapping_round_trip_witness:
  "get_pad_action
     (fst (snd (update_pad_mapping Written (str_int 36) ''Next Track'' (default_config Missing))))
     (str_int 36) = Inr (PStr ''Next Track'') \<and>
   get_pad_action
     (fst (snd (Config_init Open_fails
        (config_file (fst (snd (update_pad_mapping Written (str_int 36) ''Next Track''
           (default_config Missing))))))))
     (str_int 36) = Inr (PStr ''Next Track'')"
  using pad_mapping_round_trip
    [where c = "default_config Missing"
       and kvs = "[(''36'', PStr ''Previous Track''), (''37'', PStr ''Play/Pause Spotify''),
                   (''38'', PStr ''Next Track''), (''39'', PStr ''Launch/Focus Slack''),
                   (''40'', PStr ''Launch/Focus Windsurf''), (''41'', PStr ''Voice Recognition''),
                   (''42'', PStr ''Toggle Audio Output''), (''43'', PStr ''Move to Next Display'')]"
       and w = Written and n = 36 and A = "''Next Track''" and w' = Open_fails]
  by (simp add: default_config_def default_pad_mappings_def)

text \<open>
  C4, as amended. A knob whose action is a non-empty string other than the seven names:
  \<^verbatim>\<open>handle_knob_action\<close> returns normally, calls no capability, and logs its two
  information records and then one warning. A pad whose action is a non-empty string
  whose method name (lower case, with \<open>/\<close> and space turned into \<open>_\<close>) is no attribute
  of the \<^verbatim>\<open>PadActions\<close> object: \<^verbatim>\<open>handle_pad_action\<close> returns normally, calls no capability,
  and logs one warning.
\<close>

theorem unknown_action_is_warning:
  "(get_knob_action c (str_int cc) = (PStr s, []) \<and> s \<noteq> [] \<and> s \<notin> set knob_action_names \<longrightarrow>
      handle_knob_action en c cc v =
        (None, [Log INFO ''Received knob CC'', Log INFO ''Normalized value'',
                Log WARNING ''Unknown knob action''])) \<and>
   (get_pad_action c (str_int n) = Inr (PStr s) \<and> s \<noteq> [] \<and>
    pad_attr en (method_name s) = None \<longrightarrow>
      handle_pad_action en c n = (None, [Log WARNING ''No handler found for pad action'']))"
  by (simp add: handle_knob_action_def handle_action_def caught_def knob_action_names_def
        handle_pad_action_def)

text \<open>C4 as amended, on a knob mapped to \<open>Pan\<close> and a pad mapped to \<open>Open Terminal\<close>.\<close>

theorem unknown_action_is_warning_witness:
  "handle_knob_action quiet_env
     \<lparr>pad_mappings = PDict [(''36'', PStr ''Open Terminal'')],
      knob_mappings = PDict [(''16'', PStr ''Pan'')], config_file = Missing\<rparr> 16 64 =
     (None, [Log INFO ''Received knob CC'', Log INFO ''Normalized value'',
             Log WARNING ''Unknown knob action'']) \<and>
   handle_pad_action quiet_env
     \<lparr>pad_mappings = PDict [(''36'', PStr ''Open Terminal'')],
      knob_mappings = PDict [(''16'', PStr ''Pan'')], config_file = Missing\<rparr> 36 =
     (None, [Log WARNING ''No handler found for pad action''])"
  using unknown_action_is_warning
    [where c = "\<lparr>pad_mappings = PDict [(''36'', PStr ''Open Terminal'')],
                  knob_mappings = PDict [(''16'', PStr ''Pan'')], config_file = Missing\<rparr>"
       and cc = 16 and n = 36 and en = quiet_env and v = 64 and s = "''Pan''"]
    unknown_action_is_warning
    [where c = "\<lparr>pad_mappings = PDict [(''36'', PStr ''Open Terminal'')],
                  knob_mappings = PDict [(''16'', PStr ''Pan'')], config_file = Missing\<rparr>"
       and cc = 16 and n = 36 and en = quiet_env and v = 64 and s = "''Open Terminal''"]
  by (simp add: get_knob_action_def get_pad_action_def dict_get_def str_int_keys
        knob_action_names_def pad_attr_def pad_methods_def pad_fields_def method_name_def
        lower_def lower_char_def replace_char_def quiet_env_def)

text \<open>
  C4 as stated fails for pads. \<open>previous track\<close> is none of the thirteen names, yet its
  method name is \<open>previous_track\<close> and the capability is called; \<open>Logger\<close> is none of
  them either, and the call of the attribute \<open>logger\<close> is logged as an error, not as a
  warning.
\<close>

theorem unknown_pad_name_counterexample:
  "''previous track'' \<notin> set pad_action_names \<and>
   handle_pad_action quiet_env
     \<lparr>pad_mappings = PDict [(''36'', PStr ''previous track'')], knob_mappings = PDict [],
      config_file = Missing\<rparr> 36 = (None, [Cap (Pad_method ''previous_track'')]) \<and>
   ''Logger'' \<notin> set pad_action_names \<and>
   handle_pad_action quiet_env
     \<lparr>pad_mappings = PDict [(''36'', PStr ''Logger'')], knob_mappings = PDict [],
      config_file = Missing\<rparr> 36 = (None, [Log ERROR ''Error executing pad action''])"
  by (simp add: pad_action_names_def handle_pad_action_def get_pad_action_def dict_get_def
        str_int_keys pad_attr_def pad_methods_def pad_fields_def method_name_def
        lower_def lower_char_def replace_char_def quiet_env_def call_once_def caught_def)



text \<open>
  C6. The value \<^verbatim>\<open>handle_knob_action\<close> computes from the raw value \<open>r\<close> is \<open>r / 127\<close>: it
  is monotone in \<open>r\<close>, 0 at 0 and 1 at 127, within the unit interval for \<open>r\<close> from 0 to
  127, and it is the value \<^verbatim>\<open>handle_action\<close> is called with whenever the knob has an
  action.
\<close>

theorem normalized_value_exact:
  "normalized_value r = real_of_int r / 127 \<and>
   (r \<le> r' \<longrightarrow> normalized_value r \<le> normalized_value r') \<and>
   normalized_value 0 = 0 \<and> normalized_value 127 = 1 \<and>
   (0 \<le> r \<and> r \<le> 127 \<longrightarrow> 0 \<le> normalized_value r \<and> normalized_value r \<le> 1) \<and>
   (truthy (fst (get_knob_action c (str_int cc))) \<longrightarrow>
      handle_knob_action en c cc r =
        (None,
         snd (get_knob_action c (str_int cc))
           @ Log INFO ''Received knob CC'' # Log INFO ''Normalized value''
           # snd (handle_action en (fst (get_knob_action c (str_int cc))) (real_of_int r / 127))))"
  using handle_knob_action_mapped [of c cc en r]
  by (simp add: normalized_value_def divide_right_mono)

text \<open>C6 at the raw values 64 and 100, on knob 16 of the default tables.\<close>

theorem normalized_value_exact_witness:
  "(64::int) \<le> 100 \<and> normalized_value 64 \<le> normalized_value 100 \<and>
   0 \<le> normalized_value 64 \<and> normalized_value 64 \<le> 1 \<and>
   handle_knob_action quiet_env (default_config Missing) 16 64 =
     (None, [Log INFO ''Received knob CC'', Log INFO ''Normalized value'',
             Cap (Set_system_volume (64 / 127))])"
  using normalized_value_exact
    [where r = 64 and r' = 100 and c = "default_config Missing" and cc = 16
       and en = quiet_env]
  by (simp add: get_knob_action_def default_config_def default_knob_mappings_def
        knob_record_def str_int_keys dict_get_def handle_action_def caught_def)

text \<open>
  C7. For every key and every action name \<open>s\<close> (a non-empty string, as every name of the
  two lists is), \<^verbatim>\<open>get_knob_action\<close> returns \<open>s\<close>, without logging, both when the table
  holds the bare string \<open>s\<close> and when it holds the record with \<open>action = s\<close>; and for a
  key the table does not hold it returns \<^verbatim>\<open>None\<close>, without raising or logging. For
  every string \<open>t\<close>, the empty one included (which the lookup and its caller both take
  for no action), \<^verbatim>\<open>handle_knob_action\<close> does the same on the two forms.
\<close>

theorem get_knob_action_legacy_structured:
  "s \<noteq> [] \<Longrightarrow>
   get_knob_action (c\<lparr>knob_mappings := PDict (AList.update cc (PStr s) kvs)\<rparr>) cc = (PStr s, []) \<and>
   get_knob_action (c\<lparr>knob_mappings := PDict (AList.update cc (knob_record s mn mx) kvs)\<rparr>) cc
     = (PStr s, []) \<and>
   (map_of kvs cc = None \<longrightarrow> get_knob_action (c\<lparr>knob_mappings := PDict kvs\<rparr>) cc = (PNone, [])) \<and>
   handle_knob_action en
       (c\<lparr>knob_mappings := PDict (AList.update (str_int n) (PStr t) kvs)\<rparr>) n v =
     handle_knob_action en
       (c\<lparr>knob_mappings := PDict (AList.update (str_int n) (knob_record t mn mx) kvs)\<rparr>) n v \<and>
   [] \<notin> set knob_action_names \<and> [] \<notin> set pad_action_names"
proof -
  assume s: "s \<noteq> []"
  have lookups:
    "get_knob_action (c\<lparr>knob_mappings := PDict (AList.update cc (PStr s) kvs)\<rparr>) cc
       = (PStr s, []) \<and>
     get_knob_action (c\<lparr>knob_mappings := PDict (AList.update cc (knob_record s mn mx) kvs)\<rparr>) cc
       = (PStr s, []) \<and>
     (map_of kvs cc = None \<longrightarrow> get_knob_action (c\<lparr>knob_mappings := PDict kvs\<rparr>) cc = (PNone, []))"
    using s by (simp add: get_knob_action_def knob_record_def dict_get_def update_conv')
  have caller:
    "handle_knob_action en
       (c\<lparr>knob_mappings := PDict (AList.update (str_int n) (PStr t) kvs)\<rparr>) n v =
     handle_knob_action en
       (c\<lparr>knob_mappings := PDict (AList.update (str_int n) (knob_record t mn mx) kvs)\<rparr>) n v"
    by (cases "t = []")
       (simp_all add: handle_knob_action_def get_knob_action_def knob_record_def dict_get_def
          update_conv')
  have names: "[] \<notin> set knob_action_names \<and> [] \<notin> set pad_action_names"
    by (simp add: knob_action_names_def pad_action_names_def)
  from lookups caller names show ?thesis
    by blast
qed

text \<open>C7 at key 16 with \<open>System Volume\<close> over the empty table, and the two forms under
  \<^verbatim>\<open>handle_knob_action\<close> at the raw value 64.\<close>

theorem get_knob_action_legacy_structured_witness:
  "get_knob_action
     \<lparr>pad_mappings = PDict [], knob_mappings = PDict [(''16'', PStr ''System Volume'')],
      config_file = Missing\<rparr> ''16'' = (PStr ''System Volume'', []) \<and>
   get_knob_action
     \<lparr>pad_mappings = PDict [],
      knob_mappings = PDict [(''16'', knob_record ''System Volume'' 1 127)],
      config_file = Missing\<rparr> ''16'' = (PStr ''System Volume'', []) \<and>
   get_knob_action
     \<lparr>pad_mappings = PDict [], knob_mappings = PDict [], config_file = Missing\<rparr> ''16''
     = (PNone, []) \<and>
   handle_knob_action quiet_env
     \<lparr>pad_mappings = PDict [], knob_mappings = PDict [(''16'', PStr ''System Volume'')],
      config_file = Missing\<rparr> 16 64 =
   handle_knob_action quiet_env
     \<lparr>pad_mappings = PDict [],
      knob_mappings = PDict [(''16'', knob_record ''System Volume'' 1 127)],
      config_file = Missing\<rparr> 16 64"
  using get_knob_action_legacy_structured
    [where s = "''System Volume''" and cc = "''16''" and kvs = "[]" and mn = 1 and mx = 127
       and c = "\<lparr>pad_mappings = PDict [], knob_mappings = PDict [], config_file = Missing\<rparr>"
       and en = quiet_env and n = 16 and t = "''System Volume''" and v = 64]
  by (simp add: str_int_keys)

text \<open>
  C8. \<^verbatim>\<open>load_config\<close> returns normally for every state of the file and every outcome of
  a write. When the file holds a JSON object, the tables are its two entries (an empty
  dict for an absent one) and nothing is written. When the file is absent or unreadable, the two tables are the defaults and
  the file is what \<^verbatim>\<open>save_config\<close> makes of it on the defaults: they are in the file
  whenever the write succeeds. \<^verbatim>\<open>save_config\<close> returns normally whatever the write does,
  and leaves both tables as they were.
\<close>

theorem load_and_save_never_raise:
  "fst (load_config w c) = None \<and>
   (config_file c = Holds (PDict kvs) \<longrightarrow>
      load_config w c =
        (None,
         c\<lparr>pad_mappings := dict_get_default kvs ''pad_mappings'' (PDict []),
           knob_mappings := dict_get_default kvs ''knob_mappings'' (PDict [])\<rparr>,
         [Log INFO ''Configuration loaded successfully''])) \<and>
   (config_file c = Missing \<or> config_file c = Unparsable \<longrightarrow>
      pad_mappings (fst (snd (load_config w c))) = default_pad_mappings \<and>
      knob_mappings (fst (snd (load_config w c))) = default_knob_mappings \<and>
      config_file (fst (snd (load_config w c))) =
        config_file (fst (snd (save_config w
          (c\<lparr>pad_mappings := default_pad_mappings, knob_mappings := default_knob_mappings\<rparr>)))) \<and>
      (w = Written \<longrightarrow>
         config_file (fst (snd (load_config w c))) =
           Holds (PDict [(''pad_mappings'', default_pad_mappings),
                         (''knob_mappings'', default_knob_mappings)]))) \<and>
   fst (save_config w c) = None \<and>
   pad_mappings (fst (snd (save_config w c))) = pad_mappings c \<and>
   knob_mappings (fst (snd (save_config w c))) = knob_mappings c"
  by (cases w; cases "config_file c")
     (simp_all add: load_config_def load_body_def create_default_config_def save_config_def
        save_body_def split: pyval.splits)

text \<open>C8 on an absent file with a successful write, and on a file that holds only a pad
  table, both starting from empty tables.\<close>

theorem load_and_save_never_raise_witness:
  "fst (Config_init Written Missing) = None \<and>
   pad_mappings (fst (snd (Config_init Written Missing))) = default_pad_mappings \<and>
   knob_mappings (fst (snd (Config_init Written Missing))) = default_knob_mappings \<and>
   config_file (fst (snd (Config_init Written Missing))) =
     Holds (PDict [(''pad_mappings'', default_pad_mappings),
                   (''knob_mappings'', default_knob_mappings)]) \<and>
   Config_init Open_fails
       (Holds (PDict [(''pad_mappings'', PDict [(''36'', PStr ''Next Track'')])])) =
     (None,
      \<lparr>pad_mappings = PDict [(''36'', PStr ''Next Track'')], knob_mappings = PDict [],
       config_file = Holds (PDict [(''pad_mappings'', PDict [(''36'', PStr ''Next Track'')])])\<rparr>,
      [Log INFO ''Configuration loaded successfully''])"
  using load_and_save_never_raise
    [where w = Written and kvs = "[]"
       and c = "\<lparr>pad_mappings = PDict [], knob_mappings = PDict [], config_file = Missing\<rparr>"]
    load_and_save_never_raise
    [where w = Open_fails
       and kvs = "[(''pad_mappings'', PDict [(''36'', PStr ''Next Track'')])]"
       and c = "\<lparr>pad_mappings = PDict [], knob_mappings = PDict [],
                  config_file =
                    Holds (PDict [(''pad_mappings'', PDict [(''36'', PStr ''Next Track'')])])\<rparr>"]
  by (auto simp add: Config_init_def dict_get_default_def)

text \<open>
  C9 does not hold of the code. With a device connected, an interrupt ends
  \<^verbatim>\<open>start_monitoring\<close> normally, after its \<^verbatim>\<open>finally\<close> clause closed the input and quit
  \<^verbatim>\<open>pygame.midi\<close>; \<^verbatim>\<open>cleanup\<close> then calls \<^verbatim>\<open>close\<close> on the same object once more, which raises
  \<^verbatim>\<open>RuntimeError\<close> because the module is no longer initialised, and \<^verbatim>\<open>main\<close> of main.py
  ends with that exception. Two calls of \<^verbatim>\<open>cleanup\<close> in a row: the first returns, the
  second raises.
\<close>

theorem cleanup_after_shutdown_raises:
  "fst (start_monitoring quiet_env [Idle, Poll_raises KeyboardInterrupt] connected_controller)
     = Returned \<and>
   fst (cleanup (fst (snd (start_monitoring quiet_env [Idle, Poll_raises KeyboardInterrupt]
          connected_controller))))
     = Some RuntimeError \<and>
   fst (main_py_from quiet_env [Idle, Poll_raises KeyboardInterrupt] (Inr connected_controller, []))
     = Raised RuntimeError \<and>
   fst (cleanup connected_controller) = None \<and>
   fst (cleanup (fst (snd (cleanup connected_controller)))) = Some RuntimeError"
  by (simp add: start_monitoring_def connected_controller_def release_def input_close_def
        midi_quit_def cleanup_def main_py_from_def finally_cleanup_def)

text \<open>
  C10. Whatever exception the constructor raises, and whatever was done before it, both
  entry points run their handler (if one matches) and then end with
  \<^verbatim>\<open>UnboundLocalError\<close>, a \<^verbatim>\<open>NameError\<close>, raised by the \<^verbatim>\<open>finally\<close> clause: nothing of
  \<^verbatim>\<open>cleanup\<close> is in the trace, and the call does not return.
\<close>

theorem unbound_local_in_finally:
  "main_py_from en polls (Inl e, tr) =
     (Raised UnboundLocalError,
      tr @ (if e = KeyboardInterrupt then [Print ''Shutting down...'']
            else if is_Exception e then [Print ''Error''] else [])) \<and>
   controller_main_from en polls (Inl e, tr) =
     (Raised UnboundLocalError,
      tr @ (if is_Exception e then [Log ERROR ''Application error''] else [])) \<and>
   is_NameError UnboundLocalError \<and>
   (init_fault su = Some e \<longrightarrow>
      main_py su en polls =
        (Raised UnboundLocalError,
         if e = KeyboardInterrupt then [Print ''Shutting down...'']
         else if is_Exception e then [Print ''Error''] else []) \<and>
      controller_main su en polls =
        (Raised UnboundLocalError,
         if is_Exception e then [Log ERROR ''Application error''] else []))"
  by (simp add: main_py_from_def controller_main_from_def main_py_handlers_def
        controller_handlers_def finally_cleanup_def main_py_def controller_main_def
        AkaiMPKMiniAutomation_def)

text \<open>C10 when the log directory cannot be created (\<^verbatim>\<open>OSError\<close> in \<^verbatim>\<open>setup_logging\<close>).\<close>

theorem unbound_local_in_finally_witness:
  "main_py failing_startup quiet_env [] = (Raised UnboundLocalError, [Print ''Error'']) \<and>
   controller_main failing_startup quiet_env [] =
     (Raised UnboundLocalError, [Log ERROR ''Application error''])"
  using unbound_local_in_finally
    [where su = failing_startup and e = OSError and en = quiet_env and polls = "[]"
       and tr = "[]"]
  by (simp add: failing_startup_def)

end
